theory Spec2Isabelle
  imports Main "HOL-Library.Word"
begin

section \<open>Library functions called by the server\<close>

text \<open>
  Go strings are byte sequences and \<open>len\<close> counts bytes: they are modelled as \<open>string\<close>
  (a list of 8-bit characters) with \<open>length\<close>.
\<close>

text \<open>
  \<^verbatim>\<open>strings.Split(s, "/")\<close>: the substrings of \<open>s\<close> between the separators. The result
  is never empty: splitting the empty string gives one empty segment.
\<close>

fun Split :: "string \<Rightarrow> string list" where
  "Split [] = [[]]"
| "Split (c # cs) =
     (if c = CHR ''/'' then [] # Split cs
      else (case Split cs of [] \<Rightarrow> [[c]] | seg # segs \<Rightarrow> (c # seg) # segs))"

text \<open>\<^verbatim>\<open>strings.Join(elems, "/")\<close>.\<close>

fun Join :: "string list \<Rightarrow> string" where
  "Join [] = []"
| "Join [x] = x"
| "Join (x # y # ys) = x @ ''/'' @ Join (y # ys)"

text \<open>
  \<^verbatim>\<open>strings.HasPrefix(s, prefix)\<close>, which the library computes as
  \<^verbatim>\<open>len(s) >= len(prefix) && s[:len(prefix)] == prefix\<close>.
\<close>

definition HasPrefix :: "string \<Rightarrow> string \<Rightarrow> bool" where
  "HasPrefix s pre = (length pre \<le> length s \<and> take (length pre) s = pre)"

text \<open>\<^verbatim>\<open>strconv.Itoa(i)\<close> for the indices of a slice, which are never negative.\<close>

definition digit :: "nat \<Rightarrow> char" where
  "digit d = ''0123456789'' ! d"

fun Itoa :: "nat \<Rightarrow> string" where
  "Itoa n = (if n < 10 then [digit n] else Itoa (n div 10) @ [digit (n mod 10)])"

declare Itoa.simps [simp del]

text \<open>
  \<^verbatim>\<open>url.Values.Get(key)\<close>: the first value stored under the key, the empty string when
  there is none. \<^verbatim>\<open>url.Values\<close> is a \<^verbatim>\<open>map[string][]string\<close>.
\<close>

definition Get :: "(string \<rightharpoonup> string list) \<Rightarrow> string \<Rightarrow> string" where
  "Get v key = (case v key of None \<Rightarrow> [] | Some [] \<Rightarrow> [] | Some (x # _) \<Rightarrow> x)"

text \<open>
  A slice expression \<^verbatim>\<open>a[:n]\<close> on a slice whose capacity is its length (what
  \<^verbatim>\<open>strings.Split\<close> returns): Go panics unless \<open>0 \<le> n \<le> len(a)\<close>.
\<close>

definition slice_to :: "'a list \<Rightarrow> int \<Rightarrow> 'a list option" where
  "slice_to a n = (if 0 \<le> n \<and> n \<le> int (length a) then Some (take (nat n) a) else None)"

section \<open>Data model\<close>

record tls =
  Cert :: string
  PrivKey :: string

text \<open>
  \<open>NbComponents\<close> is a Go \<^verbatim>\<open>int\<close> that the program only compares and assigns, so no
  arithmetic can overflow: it is modelled as \<open>int\<close>. A field absent from the
  configuration file decodes to the zero value.
\<close>

record importPath =
  Prefix :: string
  NbComponents :: int
  VCS :: string
  RepoTemplate :: string

record config =
  Host :: string
  Port :: "16 word"
  Tls :: "tls option"
  Paths :: "importPath list"

record metaImport =
  miPrefix :: string
  miVCS :: string
  miRepo :: string

text \<open>
  The part of \<^verbatim>\<open>http.Request\<close> the handler reads: \<^verbatim>\<open>r.Host\<close>, \<^verbatim>\<open>r.URL.Path\<close>,
  \<^verbatim>\<open>r.URL.Query()\<close> and \<^verbatim>\<open>r.URL.String()\<close>.
\<close>

record request =
  req_Host :: string
  req_Path :: string
  req_Query :: "string \<rightharpoonup> string list"
  req_URL :: string

text \<open>What the handler leaves in the \<^verbatim>\<open>http.ResponseWriter\<close>.\<close>

record response =
  status :: nat
  headers :: "(string \<times> string) list"
  body :: string

text \<open>
  A handler either returns after writing a response or panics; \<^verbatim>\<open>net/http\<close> recovers
  a panicking handler and drops the connection.
\<close>

datatype outcome = Panicked | Resp response

text \<open>The lines the handler writes with \<^verbatim>\<open>log.Printf\<close> and \<^verbatim>\<open>log.Println\<close>.\<close>

datatype log_entry =
    NotGoGetQuery string
  | RequestFor string
  | UnableToMatch string
  | TemplateFailed string
  | SkeletonFailed

text \<open>
  The \<^verbatim>\<open>html/template\<close> engine is a library: it is a parameter of the model. \<open>'ts\<close> is
  the state of the template set \<^verbatim>\<open>mainTemplate\<close>;
  \<open>New_Parse ts name text\<close> is \<^verbatim>\<open>mainTemplate.New(name).Parse(text)\<close> (\<open>None\<close> is a
  parse error), \<open>ExecuteTemplate ts name data\<close> is
  \<^verbatim>\<open>mainTemplate.ExecuteTemplate(w, name, data)\<close> and \<open>Execute ts mi\<close> is
  \<^verbatim>\<open>mainTemplate.Execute(w, mi)\<close> (\<open>None\<close> is an execution error, otherwise the text
  written to \<open>w\<close>).
\<close>

record 'ts engine =
  New_Parse :: "'ts \<Rightarrow> string \<Rightarrow> string \<Rightarrow> 'ts option"
  ExecuteTemplate :: "'ts \<Rightarrow> string \<Rightarrow> string list \<Rightarrow> string option"
  Execute :: "'ts \<Rightarrow> metaImport \<Rightarrow> string option"

section \<open>The request handler\<close>

definition templateNameForImportPath :: "nat \<Rightarrow> string" where
  "templateNameForImportPath i = ''path-'' @ Itoa i"

text \<open>
  The loop over \<^verbatim>\<open>conf.Paths\<close>. The state is \<open>(p, pi, pl)\<close>, initially
  \<open>(nil, 0, 0)\<close>; \<open>i\<close> is the index of the element the loop is at. \<open>p\<close> points into
  \<^verbatim>\<open>conf.Paths\<close>, which the handler never writes, so it is modelled by the element.
\<close>

fun paths_loop ::
  "string \<Rightarrow> string list \<Rightarrow> importPath list \<Rightarrow> nat \<Rightarrow>
   importPath option \<times> nat \<times> nat \<Rightarrow> importPath option \<times> nat \<times> nat" where
  "paths_loop pkgName components [] i st = st"
| "paths_loop pkgName components (path # rest) i (p, pi, pl) =
     (if NbComponents path \<le> int (length components)
         \<and> HasPrefix pkgName (Prefix path)
         \<and> pl \<le> length (Prefix path)
      then paths_loop pkgName components rest (Suc i) (Some path, i, length (Prefix path))
      else paths_loop pkgName components rest (Suc i) (p, pi, pl))"

text \<open>\<^verbatim>\<open>w.WriteHeader(http.StatusBadRequest)\<close> and nothing else.\<close>

definition bad_request :: response where
  "bad_request = \<lparr>status = 400, headers = [], body = []\<rparr>"

text \<open>\<^verbatim>\<open>http.NotFound(w, r)\<close>.\<close>

definition not_found :: response where
  "not_found =
     \<lparr>status = 404,
      headers = [(''Content-Type'', ''text/plain; charset=utf-8''),
                 (''X-Content-Type-Options'', ''nosniff'')],
      body = ''404 page not found'' @ [CHR 0x0A]\<rparr>"

text \<open>\<^verbatim>\<open>w.WriteHeader(http.StatusInternalServerError)\<close> and nothing else.\<close>

definition internal_error :: response where
  "internal_error = \<lparr>status = 500, headers = [], body = []\<rparr>"

definition ok :: "string \<Rightarrow> response" where
  "ok html = \<lparr>status = 200, headers = [(''Content-Type'', ''text/html'')], body = html\<rparr>"

text \<open>
  \<^verbatim>\<open>handler(conf, w, r)\<close>, with the global \<^verbatim>\<open>mainTemplate\<close> and the log passed
  explicitly. It returns what was written to \<open>w\<close> and the log with the new lines.
\<close>

definition handler ::
  "'ts engine \<Rightarrow> 'ts \<Rightarrow> config \<Rightarrow> request \<Rightarrow> log_entry list \<Rightarrow> outcome \<times> log_entry list" where
  "handler eng mainTemplate conf r lg =
     (if Get (req_Query r) ''go-get'' \<noteq> ''1''
      then (Resp bad_request, lg @ [NotGoGetQuery (req_URL r)])
      else
        let pkgName = req_Host r @ req_Path r;
            components = Split pkgName;
            lg1 = lg @ [RequestFor pkgName]
        in case paths_loop pkgName components (Paths conf) 0 (None, 0, 0) of
             (None, pi, pl) \<Rightarrow> (Resp not_found, lg1 @ [UnableToMatch pkgName])
           | (Some p, pi, pl) \<Rightarrow>
               (case ExecuteTemplate eng mainTemplate (templateNameForImportPath pi) components of
                  None \<Rightarrow> (Resp not_found, lg1 @ [TemplateFailed pkgName])
                | Some repo \<Rightarrow>
                    (case slice_to components (NbComponents p) of
                       None \<Rightarrow> (Panicked, lg1)
                     | Some cs \<Rightarrow>
                         (case Execute eng mainTemplate
                                 \<lparr>miPrefix = Join cs, miVCS = VCS p, miRepo = repo\<rparr> of
                            None \<Rightarrow> (Resp internal_error, lg1 @ [SkeletonFailed])
                          | Some html \<Rightarrow> (Resp (ok html), lg1)))))"

section \<open>Start-up\<close>

text \<open>
  What stops the process before it serves: \<^verbatim>\<open>template.Must\<close> panics on a template
  that does not parse; the validated variant of the program calls \<^verbatim>\<open>log.Fatalf\<close> on a
  configuration that fails validation.
\<close>

datatype fatal = TemplateParseError nat | InvalidConfiguration

text \<open>
  The loop of \<^verbatim>\<open>main\<close> over \<^verbatim>\<open>conf.Paths\<close>: it fills in \<open>NbComponents\<close> in place
  and parses each repo template into \<^verbatim>\<open>mainTemplate\<close> under the name of its index.
\<close>

fun main_loop ::
  "'ts engine \<Rightarrow> importPath list \<Rightarrow> nat \<Rightarrow> 'ts \<Rightarrow> fatal + (importPath list \<times> 'ts)" where
  "main_loop eng [] i mainTemplate = Inr ([], mainTemplate)"
| "main_loop eng (p # rest) i mainTemplate =
     (let p' = (if NbComponents p \<le> 0
                then p\<lparr>NbComponents := int (length (Split (Prefix p)))\<rparr> else p)
      in case New_Parse eng mainTemplate (templateNameForImportPath i) (RepoTemplate p') of
           None \<Rightarrow> Inl (TemplateParseError i)
         | Some t \<Rightarrow>
             (case main_loop eng rest (Suc i) t of
                Inl e \<Rightarrow> Inl e
              | Inr (ps, t') \<Rightarrow> Inr (p' # ps, t')))"

text \<open>
  \<^verbatim>\<open>main\<close> from the decoded configuration to the point where it starts to serve: the
  configuration and template set the handler is then called with.
\<close>

definition main_setup :: "'ts engine \<Rightarrow> config \<Rightarrow> 'ts \<Rightarrow> fatal + (config \<times> 'ts)" where
  "main_setup eng conf mainTemplate =
     (case main_loop eng (Paths conf) 0 mainTemplate of
        Inl e \<Rightarrow> Inl e
      | Inr (ps, t) \<Rightarrow> Inr (conf\<lparr>Paths := ps\<rparr>, t))"

section \<open>The validated variant of the program\<close>

text \<open>
  \<^verbatim>\<open>src/main.go\<close> declares its configuration with validation tags and has no
  \<open>NbComponents\<close>; its \<^verbatim>\<open>main\<close> runs \<^verbatim>\<open>v.Struct(conf)\<close> and calls \<^verbatim>\<open>log.Fatalf\<close>
  when a tag is violated. \<^verbatim>\<open>ReadTimeout\<close> is a duration, a 64-bit count of nanoseconds.
\<close>

record importPath' =
  Prefix' :: string
  VCS' :: string
  RepoTemplate' :: string

record config' =
  Addr :: string
  ReadTimeout :: int
  TLS :: "tls option"
  Paths' :: "importPath' list"

text \<open>
  The validators that look outside the configuration or whose parameter syntax belongs to
  the validation library are parameters: \<^verbatim>\<open>hostname_port\<close>, \<^verbatim>\<open>min=1s\<close> and \<^verbatim>\<open>file\<close>.
\<close>

record validators =
  hostname_port :: "string \<Rightarrow> bool"
  min_1s :: "int \<Rightarrow> bool"
  is_file :: "string \<Rightarrow> bool"

text \<open>The tag \<^verbatim>\<open>required\<close> on a string field: the field is not the zero value.\<close>

definition required :: "string \<Rightarrow> bool" where
  "required s \<longleftrightarrow> s \<noteq> []"

text \<open>\<^verbatim>\<open>importPath\<close>: \<^verbatim>\<open>Prefix\<close> and \<^verbatim>\<open>RepoTemplate\<close> are \<^verbatim>\<open>required\<close>, \<^verbatim>\<open>VCS\<close> has no tag.\<close>

definition validate_importPath :: "importPath' \<Rightarrow> bool" where
  "validate_importPath p \<longleftrightarrow> required (Prefix' p) \<and> required (RepoTemplate' p)"

text \<open>\<^verbatim>\<open>tls\<close>: both fields are \<^verbatim>\<open>required,file\<close>.\<close>

definition validate_tls :: "validators \<Rightarrow> tls \<Rightarrow> bool" where
  "validate_tls v t \<longleftrightarrow>
     required (Cert t) \<and> is_file v (Cert t) \<and> required (PrivKey t) \<and> is_file v (PrivKey t)"

text \<open>
  \<^verbatim>\<open>config\<close>: \<^verbatim>\<open>Addr\<close> is \<^verbatim>\<open>hostname_port\<close>, \<^verbatim>\<open>ReadTimeout\<close> is \<^verbatim>\<open>min=1s\<close>, a \<^verbatim>\<open>TLS\<close>
  that is not nil is validated as a struct, \<^verbatim>\<open>Paths\<close> is \<^verbatim>\<open>min=1,dive\<close>: at least one
  element, and every element validated.
\<close>

definition validate_config :: "validators \<Rightarrow> config' \<Rightarrow> bool" where
  "validate_config v conf \<longleftrightarrow>
     hostname_port v (Addr conf)
     \<and> min_1s v (ReadTimeout conf)
     \<and> (case TLS conf of None \<Rightarrow> True | Some t \<Rightarrow> validate_tls v t)
     \<and> 1 \<le> length (Paths' conf)
     \<and> list_all validate_importPath (Paths' conf)"

text \<open>
  \<^verbatim>\<open>main\<close> of \<^verbatim>\<open>src/main.go\<close> from the decoded configuration to the point where it
  starts to serve.
\<close>

definition main_validate :: "validators \<Rightarrow> config' \<Rightarrow> fatal + config'" where
  "main_validate v conf =
     (if validate_config v conf then Inr conf else Inl InvalidConfiguration)"

section \<open>Candidates\<close>

text \<open>
  The first two conjuncts of the loop's condition: what makes a rule eligible, before
  its prefix length is compared with the best so far.
\<close>

definition candidate :: "string \<Rightarrow> string list \<Rightarrow> importPath \<Rightarrow> bool" where
  "candidate pkgName components path \<longleftrightarrow>
     NbComponents path \<le> int (length components) \<and> HasPrefix pkgName (Prefix path)"

section \<open>A template engine and rules for the examples\<close>

text \<open>
  An instance of the engine for evaluating examples. It knows two kinds of template text:
  a text that ends in the action \<^verbatim>\<open>{{index . 2}}\<close> renders as the text before the action
  followed by the third element of the data, and fails when the data has fewer than three
  elements; any other text renders as itself. Parsing accepts every text and stores it
  under its name; the skeleton renders as its \<^verbatim>\<open>meta\<close> element.
\<close>

definition demo_exec :: "string \<Rightarrow> string list \<Rightarrow> string option" where
  "demo_exec text data =
     (let a = ''{{index . 2}}''; n = length text - length a
      in if length a \<le> length text \<and> drop n text = a
         then (if 2 < length data then Some (take n text @ data ! 2) else None)
         else Some text)"

definition demo_engine :: "((string \<times> string) list) engine" where
  \<open>demo_engine =
     \<lparr>New_Parse = (\<lambda>ts name text. Some ((name, text) # ts)),
      ExecuteTemplate = (\<lambda>ts name data.
         case map_of ts name of None \<Rightarrow> None | Some text \<Rightarrow> demo_exec text data),
      Execute = (\<lambda>ts mi. Some (''<meta name="go-import" content="'' @ miPrefix mi @ '' ''
                                  @ miVCS mi @ '' '' @ miRepo mi @ ''">''))\<rparr>\<close>

definition rule_a :: importPath where
  "rule_a = \<lparr>Prefix = ''a'', NbComponents = 1, VCS = ''git'',
             RepoTemplate = ''https://git.example/a''\<rparr>"

definition rule_a_b :: importPath where
  "rule_a_b = \<lparr>Prefix = ''a/b'', NbComponents = 2, VCS = ''git'',
               RepoTemplate = ''https://git.example/b''\<rparr>"

definition rule_a_b_hg :: importPath where
  "rule_a_b_hg = \<lparr>Prefix = ''a/b'', NbComponents = 2, VCS = ''hg'',
                  RepoTemplate = ''https://hg.example/b''\<rparr>"

definition host_team :: importPath where
  "host_team = \<lparr>Prefix = ''host/team'', NbComponents = 3, VCS = ''git'',
                RepoTemplate = ''https://git.host/{{index . 2}}''\<rparr>"

text \<open>A configuration as decoded, as \<^verbatim>\<open>main\<close> leaves it, and its template set.\<close>

definition example_raw_conf :: config where
  "example_raw_conf =
     \<lparr>Host = ''example.com'', Port = 8080, Tls = None,
      Paths = [\<lparr>Prefix = ''example.com/foo'', NbComponents = 0, VCS = ''git'',
                RepoTemplate = ''https://github.com/org/{{index . 2}}''\<rparr>,
               \<lparr>Prefix = ''example.com/pkg'', NbComponents = - 3, VCS = ''hg'',
                RepoTemplate = ''https://hg.example.com/{{index . 2}}''\<rparr>]\<rparr>"

definition example_conf :: config where
  "example_conf =
     \<lparr>Host = ''example.com'', Port = 8080, Tls = None,
      Paths = [\<lparr>Prefix = ''example.com/foo'', NbComponents = 2, VCS = ''git'',
                RepoTemplate = ''https://github.com/org/{{index . 2}}''\<rparr>,
               \<lparr>Prefix = ''example.com/pkg'', NbComponents = 2, VCS = ''hg'',
                RepoTemplate = ''https://hg.example.com/{{index . 2}}''\<rparr>]\<rparr>"

definition example_templates :: "(string \<times> string) list" where
  "example_templates =
     [(''path-1'', ''https://hg.example.com/{{index . 2}}''),
      (''path-0'', ''https://github.com/org/{{index . 2}}'')]"

text \<open>The request \<^verbatim>\<open>GET http://example.com<path>?go-get=1\<close>.\<close>

definition go_get :: "string \<Rightarrow> request" where
  "go_get path =
     \<lparr>req_Host = ''example.com'', req_Path = path, req_Query = [''go-get'' \<mapsto> [''1'']],
      req_URL = path @ ''?go-get=1''\<rparr>"

text \<open>A decoded configuration whose only rule has neither prefix nor repo template.\<close>

definition empty_rule_conf :: config where
  "empty_rule_conf =
     \<lparr>Host = ''example.com'', Port = 8080, Tls = None,
      Paths = [\<lparr>Prefix = [], NbComponents = 0, VCS = ''git'', RepoTemplate = []\<rparr>]\<rparr>"

text \<open>Validators and configurations for the validated variant.\<close>

definition demo_validators :: validators where
  "demo_validators =
     \<lparr>hostname_port = (\<lambda>a. a \<noteq> []), min_1s = (\<lambda>d. 1000000000 \<le> d), is_file = (\<lambda>f. True)\<rparr>"

definition valid_conf :: config' where
  "valid_conf =
     \<lparr>Addr = '':8080'', ReadTimeout = 5000000000, TLS = None,
      Paths' = [\<lparr>Prefix' = ''example.com/foo'', VCS' = ''git'',
                 RepoTemplate' = ''https://github.com/org/{{index . 2}}''\<rparr>]\<rparr>"

definition empty_prefix_conf :: config' where
  "empty_prefix_conf =
     \<lparr>Addr = '':8080'', ReadTimeout = 5000000000, TLS = None,
      Paths' = [\<lparr>Prefix' = ''example.com/foo'', VCS' = ''git'',
                 RepoTemplate' = ''https://github.com/org/{{index . 2}}''\<rparr>,
                \<lparr>Prefix' = [], VCS' = ''git'', RepoTemplate' = ''https://github.com/org/x''\<rparr>]\<rparr>"

section \<open>Facts about the library functions\<close>

lemma Split_not_Nil: "Split s \<noteq> []"
  by (induction s) (auto split: list.splits)

lemma length_Split: "length (Split s) = Suc (count_list s (CHR ''/''))"
  by (induction s) (auto split: list.splits simp: Split_not_Nil)

lemma HasPrefix_iff: "HasPrefix s pre \<longleftrightarrow> (\<exists>rest. s = pre @ rest)"
  unfolding HasPrefix_def
  by (metis append_eq_conv_conj append_take_drop_id length_append le_add1)

lemma names:
  "templateNameForImportPath 0 = ''path-0''"
  "templateNameForImportPath (Suc 0) = ''path-1''"
  by (simp_all add: templateNameForImportPath_def Itoa.simps digit_def)

section \<open>What the loop computes\<close>

lemma paths_loop_char:
  assumes "paths_loop pkg comps xs i (p, pi, pl) = (p', pi', pl')"
  shows "((p', pi', pl') = (p, pi, pl) \<and>
            (\<forall>x \<in> set xs. \<not> (candidate pkg comps x \<and> pl \<le> length (Prefix x))))
       \<or> (\<exists>j < length xs. p' = Some (xs ! j) \<and> pi' = i + j \<and> pl' = length (Prefix (xs ! j))
             \<and> candidate pkg comps (xs ! j) \<and> pl \<le> pl'
             \<and> (\<forall>k < length xs. candidate pkg comps (xs ! k) \<longrightarrow>
                   length (Prefix (xs ! k)) \<le> pl'
                   \<and> (length (Prefix (xs ! k)) = pl' \<longrightarrow> k \<le> j)))"
  using assms
proof (induction xs arbitrary: i p pi pl)
  case Nil
  then show ?case by simp
next
  case (Cons x xs)
  show ?case
  proof (cases "candidate pkg comps x \<and> pl \<le> length (Prefix x)")
    case True
    then have run: "paths_loop pkg comps xs (Suc i) (Some x, i, length (Prefix x)) = (p', pi', pl')"
      using Cons.prems by (simp add: candidate_def)
    from Cons.IH [OF run] show ?thesis
    proof
      assume a: "(p', pi', pl') = (Some x, i, length (Prefix x)) \<and>
            (\<forall>y \<in> set xs. \<not> (candidate pkg comps y \<and> length (Prefix x) \<le> length (Prefix y)))"
      have "\<forall>k < length (x # xs). candidate pkg comps ((x # xs) ! k) \<longrightarrow>
                   length (Prefix ((x # xs) ! k)) \<le> pl'
                   \<and> (length (Prefix ((x # xs) ! k)) = pl' \<longrightarrow> k \<le> 0)"
      proof (intro allI impI)
        fix k assume k: "k < length (x # xs)" and c: "candidate pkg comps ((x # xs) ! k)"
        show "length (Prefix ((x # xs) ! k)) \<le> pl'
                   \<and> (length (Prefix ((x # xs) ! k)) = pl' \<longrightarrow> k \<le> 0)"
        proof (cases k)
          case 0
          then show ?thesis using a by simp
        next
          case (Suc m)
          then have "xs ! m \<in> set xs" using k by simp
          then have "\<not> length (Prefix x) \<le> length (Prefix (xs ! m))"
            using a c Suc by auto
          then show ?thesis using a Suc by simp
        qed
      qed
      then show ?thesis using a True by (intro disjI2 exI [of _ 0]) simp
    next
      assume "\<exists>j < length xs. p' = Some (xs ! j) \<and> pi' = Suc i + j \<and> pl' = length (Prefix (xs ! j))
             \<and> candidate pkg comps (xs ! j) \<and> length (Prefix x) \<le> pl'
             \<and> (\<forall>k < length xs. candidate pkg comps (xs ! k) \<longrightarrow>
                   length (Prefix (xs ! k)) \<le> pl'
                   \<and> (length (Prefix (xs ! k)) = pl' \<longrightarrow> k \<le> j))"
      then obtain j where j: "j < length xs" "p' = Some (xs ! j)" "pi' = Suc i + j"
          "pl' = length (Prefix (xs ! j))" "candidate pkg comps (xs ! j)" "length (Prefix x) \<le> pl'"
          and best: "\<forall>k < length xs. candidate pkg comps (xs ! k) \<longrightarrow>
                   length (Prefix (xs ! k)) \<le> pl'
                   \<and> (length (Prefix (xs ! k)) = pl' \<longrightarrow> k \<le> j)"
        by blast
      have "\<forall>k < length (x # xs). candidate pkg comps ((x # xs) ! k) \<longrightarrow>
                   length (Prefix ((x # xs) ! k)) \<le> pl'
                   \<and> (length (Prefix ((x # xs) ! k)) = pl' \<longrightarrow> k \<le> Suc j)"
      proof (intro allI impI)
        fix k assume k: "k < length (x # xs)" and c: "candidate pkg comps ((x # xs) ! k)"
        show "length (Prefix ((x # xs) ! k)) \<le> pl'
                   \<and> (length (Prefix ((x # xs) ! k)) = pl' \<longrightarrow> k \<le> Suc j)"
        proof (cases k)
          case 0
          then show ?thesis using j by simp
        next
          case (Suc m)
          then show ?thesis using best k c by auto
        qed
      qed
      then show ?thesis using j True by (intro disjI2 exI [of _ "Suc j"]) simp
    qed
  next
    case False
    then have run: "paths_loop pkg comps xs (Suc i) (p, pi, pl) = (p', pi', pl')"
      using Cons.prems by (auto simp: candidate_def)
    from Cons.IH [OF run] show ?thesis
    proof
      assume "(p', pi', pl') = (p, pi, pl) \<and>
            (\<forall>y \<in> set xs. \<not> (candidate pkg comps y \<and> pl \<le> length (Prefix y)))"
      then show ?thesis using False by auto
    next
      assume "\<exists>j < length xs. p' = Some (xs ! j) \<and> pi' = Suc i + j \<and> pl' = length (Prefix (xs ! j))
             \<and> candidate pkg comps (xs ! j) \<and> pl \<le> pl'
             \<and> (\<forall>k < length xs. candidate pkg comps (xs ! k) \<longrightarrow>
                   length (Prefix (xs ! k)) \<le> pl'
                   \<and> (length (Prefix (xs ! k)) = pl' \<longrightarrow> k \<le> j))"
      then obtain j where j: "j < length xs" "p' = Some (xs ! j)" "pi' = Suc i + j"
          "pl' = length (Prefix (xs ! j))" "candidate pkg comps (xs ! j)" "pl \<le> pl'"
          and best: "\<forall>k < length xs. candidate pkg comps (xs ! k) \<longrightarrow>
                   length (Prefix (xs ! k)) \<le> pl'
                   \<and> (length (Prefix (xs ! k)) = pl' \<longrightarrow> k \<le> j)"
        by blast
      have "\<forall>k < length (x # xs). candidate pkg comps ((x # xs) ! k) \<longrightarrow>
                   length (Prefix ((x # xs) ! k)) \<le> pl'
                   \<and> (length (Prefix ((x # xs) ! k)) = pl' \<longrightarrow> k \<le> Suc j)"
      proof (intro allI impI)
        fix k assume k: "k < length (x # xs)" and c: "candidate pkg comps ((x # xs) ! k)"
        show "length (Prefix ((x # xs) ! k)) \<le> pl'
                   \<and> (length (Prefix ((x # xs) ! k)) = pl' \<longrightarrow> k \<le> Suc j)"
        proof (cases k)
          case 0
          then show ?thesis using j False c by auto
        next
          case (Suc m)
          then show ?thesis using best k c by auto
        qed
      qed
      then show ?thesis using j by (intro disjI2 exI [of _ "Suc j"]) simp
    qed
  qed
qed

lemma select_char:
  assumes "paths_loop pkg comps xs 0 (None, 0, 0) = (p', pi', pl')"
  shows "(p' = None \<and> (\<forall>x \<in> set xs. \<not> candidate pkg comps x))
       \<or> (pi' < length xs \<and> p' = Some (xs ! pi') \<and> pl' = length (Prefix (xs ! pi'))
             \<and> candidate pkg comps (xs ! pi')
             \<and> (\<forall>k < length xs. candidate pkg comps (xs ! k) \<longrightarrow>
                   length (Prefix (xs ! k)) \<le> length (Prefix (xs ! pi'))
                   \<and> (length (Prefix (xs ! k)) = length (Prefix (xs ! pi')) \<longrightarrow> k \<le> pi')))"
  using paths_loop_char [OF assms]
proof (elim disjE exE conjE)
  assume "(p', pi', pl') = (None, 0, 0)"
    and "\<forall>x \<in> set xs. \<not> (candidate pkg comps x \<and> 0 \<le> length (Prefix x))"
  then show ?thesis by simp
next
  fix j
  assume "j < length xs" "p' = Some (xs ! j)" "pi' = 0 + j" "pl' = length (Prefix (xs ! j))"
    "candidate pkg comps (xs ! j)"
    "\<forall>k < length xs. candidate pkg comps (xs ! k) \<longrightarrow>
        length (Prefix (xs ! k)) \<le> pl' \<and> (length (Prefix (xs ! k)) = pl' \<longrightarrow> k \<le> j)"
  then show ?thesis by simp
qed

lemma select_Some:
  assumes "paths_loop pkg comps xs 0 (None, 0, 0) = (Some p, pi', pl')"
  shows "pi' < length xs" and "p = xs ! pi'" and "pl' = length (Prefix p)"
    and "candidate pkg comps p"
    and "\<And>k. k < length xs \<Longrightarrow> candidate pkg comps (xs ! k) \<Longrightarrow>
           length (Prefix (xs ! k)) \<le> length (Prefix p)"
    and "\<And>k. k < length xs \<Longrightarrow> candidate pkg comps (xs ! k) \<Longrightarrow>
           length (Prefix (xs ! k)) = length (Prefix p) \<Longrightarrow> k \<le> pi'"
  using select_char [OF assms] by simp_all

lemma select_None:
  assumes "paths_loop pkg comps xs 0 (None, 0, 0) = (None, pi', pl')"
  shows "\<forall>x \<in> set xs. \<not> candidate pkg comps x"
  using select_char [OF assms] by simp

lemma select_exists:
  assumes "x \<in> set xs" and "candidate pkg comps x"
  shows "\<exists>p pi' pl'. paths_loop pkg comps xs 0 (None, 0, 0) = (Some p, pi', pl')"
proof -
  obtain p' pi' pl' where r: "paths_loop pkg comps xs 0 (None, 0, 0) = (p', pi', pl')"
    by (cases "paths_loop pkg comps xs 0 (None, 0, 0)") auto
  have "p' \<noteq> None"
  proof
    assume "p' = None"
    with r select_None have "\<not> candidate pkg comps x" using assms(1) by blast
    with assms(2) show False by simp
  qed
  with r show ?thesis by auto
qed

lemma candidate_iff:
  "candidate pkg (Split pkg) r \<longleftrightarrow>
     NbComponents r \<le> 1 + int (count_list pkg (CHR ''/'')) \<and> (\<exists>rest. pkg = Prefix r @ rest)"
  by (simp add: candidate_def length_Split HasPrefix_iff)

section \<open>Selection of the rule\<close>

text \<open>
  C1. Longest prefix wins. When a table holds two rules that are both candidates for a
  path and the prefix of the first is a proper prefix of the prefix of the second, the loop
  selects a rule whose prefix is at least as long as the second's, never the first; when the
  table holds these two rules only, in either order, it selects the second.
\<close>

theorem longest_prefix_wins:
  assumes r1: "r1 \<in> set paths" and r2: "r2 \<in> set paths"
    and c1: "candidate pkg (Split pkg) r1" and c2: "candidate pkg (Split pkg) r2"
    and proper: "\<exists>s. s \<noteq> [] \<and> Prefix r2 = Prefix r1 @ s"
  shows "\<exists>p pi pl. paths_loop pkg (Split pkg) paths 0 (None, 0, 0) = (Some p, pi, pl)
           \<and> p \<in> set paths \<and> p \<noteq> r1
           \<and> length (Prefix r2) \<le> length (Prefix p)
           \<and> (set paths = {r1, r2} \<longrightarrow> p = r2)"
proof -
  from select_exists [OF r2 c2]
  obtain p pi' pl' where r: "paths_loop pkg (Split pkg) paths 0 (None, 0, 0) = (Some p, pi', pl')"
    by blast
  note sel = select_Some [OF r]
  obtain k where k: "k < length paths" "paths ! k = r2"
    using r2 by (auto simp: in_set_conv_nth)
  have len: "length (Prefix r2) \<le> length (Prefix p)"
    using sel(5) [OF k(1)] k(2) c2 by simp
  moreover have "length (Prefix r1) < length (Prefix r2)"
    using proper by auto
  ultimately have ne: "p \<noteq> r1" by auto
  have mem: "p \<in> set paths" using sel(1,2) by simp
  have "set paths = {r1, r2} \<longrightarrow> p = r2" using mem ne by auto
  with r len ne mem show ?thesis by blast
qed

theorem longest_prefix_wins_witness:
  "fst (paths_loop ''a/b/c'' (Split ''a/b/c'') [rule_a, rule_a_b] 0 (None, 0, 0)) = Some rule_a_b
   \<and> fst (paths_loop ''a/b/c'' (Split ''a/b/c'') [rule_a_b, rule_a] 0 (None, 0, 0)) = Some rule_a_b"
proof -
  have c1: "candidate ''a/b/c'' (Split ''a/b/c'') rule_a"
    and c2: "candidate ''a/b/c'' (Split ''a/b/c'') rule_a_b"
    by (simp_all add: candidate_def HasPrefix_def rule_a_def rule_a_b_def)
  have proper: "\<exists>s. s \<noteq> [] \<and> Prefix rule_a_b = Prefix rule_a @ s"
    by (simp add: rule_a_def rule_a_b_def)
  have "rule_a \<in> set [rule_a, rule_a_b]" "rule_a_b \<in> set [rule_a, rule_a_b]"
    by simp_all
  from longest_prefix_wins [OF this c1 c2 proper]
  obtain p pi pl where
    "paths_loop ''a/b/c'' (Split ''a/b/c'') [rule_a, rule_a_b] 0 (None, 0, 0) = (Some p, pi, pl)"
    "set [rule_a, rule_a_b] = {rule_a, rule_a_b} \<longrightarrow> p = rule_a_b"
    by blast
  then have one: "fst (paths_loop ''a/b/c'' (Split ''a/b/c'') [rule_a, rule_a_b] 0 (None, 0, 0))
      = Some rule_a_b"
    by simp
  have "rule_a \<in> set [rule_a_b, rule_a]" "rule_a_b \<in> set [rule_a_b, rule_a]"
    by simp_all
  from longest_prefix_wins [OF this c1 c2 proper]
  obtain p' pi' pl' where
    "paths_loop ''a/b/c'' (Split ''a/b/c'') [rule_a_b, rule_a] 0 (None, 0, 0) = (Some p', pi', pl')"
    "set [rule_a_b, rule_a] = {rule_a, rule_a_b} \<longrightarrow> p' = rule_a_b"
    by blast
  then have two: "fst (paths_loop ''a/b/c'' (Split ''a/b/c'') [rule_a_b, rule_a] 0 (None, 0, 0))
      = Some rule_a_b"
    by (simp add: insert_commute)
  from one two show ?thesis by simp
qed

text \<open>
  C2. The gate. A rule is a candidate exactly when its \<open>NbComponents\<close> is at most the
  number of segments of the path (one more than its number of slashes) and the path
  starts with the rule's prefix, byte for byte; a table of one rule selects it exactly when
  it is a candidate, and a table selects nothing exactly when it holds no candidate.
\<close>

theorem candidate_gate:
  "(candidate pkg (Split pkg) r \<longleftrightarrow>
      NbComponents r \<le> 1 + int (count_list pkg (CHR ''/'')) \<and> (\<exists>rest. pkg = Prefix r @ rest))
   \<and> (fst (paths_loop pkg (Split pkg) [r] 0 (None, 0, 0)) = Some r \<longleftrightarrow>
        candidate pkg (Split pkg) r)
   \<and> (fst (paths_loop pkg (Split pkg) paths 0 (None, 0, 0)) = None \<longleftrightarrow>
        (\<forall>x \<in> set paths. \<not> candidate pkg (Split pkg) x))"
proof (intro conjI)
  show "candidate pkg (Split pkg) r \<longleftrightarrow>
      NbComponents r \<le> 1 + int (count_list pkg (CHR ''/'')) \<and> (\<exists>rest. pkg = Prefix r @ rest)"
    by (rule candidate_iff)
  show "fst (paths_loop pkg (Split pkg) [r] 0 (None, 0, 0)) = Some r \<longleftrightarrow>
        candidate pkg (Split pkg) r"
    by (simp add: candidate_def)
  show "fst (paths_loop pkg (Split pkg) paths 0 (None, 0, 0)) = None \<longleftrightarrow>
        (\<forall>x \<in> set paths. \<not> candidate pkg (Split pkg) x)"
  proof
    assume a: "fst (paths_loop pkg (Split pkg) paths 0 (None, 0, 0)) = None"
    then obtain pi pl where "paths_loop pkg (Split pkg) paths 0 (None, 0, 0) = (None, pi, pl)"
      by (cases "paths_loop pkg (Split pkg) paths 0 (None, 0, 0)") auto
    then show "\<forall>x \<in> set paths. \<not> candidate pkg (Split pkg) x"
      by (rule select_None)
  next
    assume a: "\<forall>x \<in> set paths. \<not> candidate pkg (Split pkg) x"
    show "fst (paths_loop pkg (Split pkg) paths 0 (None, 0, 0)) = None"
    proof (rule ccontr)
      assume "fst (paths_loop pkg (Split pkg) paths 0 (None, 0, 0)) \<noteq> None"
      then obtain p pi pl where r: "paths_loop pkg (Split pkg) paths 0 (None, 0, 0) = (Some p, pi, pl)"
        by (cases "paths_loop pkg (Split pkg) paths 0 (None, 0, 0)") auto
      from select_Some(1,2,4) [OF r] a show False by auto
    qed
  qed
qed

theorem candidate_gate_witness:
  "fst (paths_loop ''host/team'' (Split ''host/team'') [host_team] 0 (None, 0, 0)) \<noteq> Some host_team
   \<and> fst (paths_loop ''host/team/repo'' (Split ''host/team/repo'') [host_team] 0 (None, 0, 0)) = Some host_team
   \<and> fst (paths_loop ''host/teammate/x'' (Split ''host/teammate/x'') [host_team] 0 (None, 0, 0)) = Some host_team
   \<and> fst (paths_loop ''host/tea/m/x'' (Split ''host/tea/m/x'') [host_team] 0 (None, 0, 0)) = None"
  using candidate_gate [of "''host/team''" host_team "[]"]
    candidate_gate [of "''host/team/repo''" host_team "[]"]
    candidate_gate [of "''host/teammate/x''" host_team "[]"]
    candidate_gate [of "''host/tea/m/x''" host_team "[host_team]"]
  by (simp add: host_team_def)

text \<open>
  C3. Ties. The candidate with the longest prefix that is declared last among the
  candidates of that length is the one the loop selects, with its index.
\<close>

theorem last_declared_wins_ties:
  assumes j: "j < length paths"
    and cand: "candidate pkg (Split pkg) (paths ! j)"
    and longest: "\<forall>k < length paths. candidate pkg (Split pkg) (paths ! k) \<longrightarrow>
                    length (Prefix (paths ! k)) \<le> length (Prefix (paths ! j))"
    and last: "\<forall>k < length paths. candidate pkg (Split pkg) (paths ! k)
                    \<and> length (Prefix (paths ! k)) = length (Prefix (paths ! j)) \<longrightarrow> k \<le> j"
  shows "paths_loop pkg (Split pkg) paths 0 (None, 0, 0)
           = (Some (paths ! j), j, length (Prefix (paths ! j)))"
proof -
  have "paths ! j \<in> set paths" using j by simp
  from select_exists [OF this cand]
  obtain p pi' pl' where r: "paths_loop pkg (Split pkg) paths 0 (None, 0, 0) = (Some p, pi', pl')"
    by blast
  note sel = select_Some [OF r]
  have "length (Prefix (paths ! j)) \<le> length (Prefix p)"
    using sel(5) [OF j cand] .
  moreover have "length (Prefix p) \<le> length (Prefix (paths ! j))"
    using longest sel(1,2,4) by simp
  ultimately have eq: "length (Prefix (paths ! j)) = length (Prefix p)" by simp
  have "j \<le> pi'" using sel(6) [OF j cand eq] .
  moreover have "pi' \<le> j" using last sel(1,2,4) eq by simp
  ultimately have "pi' = j" by simp
  with r sel(2,3) show ?thesis by simp
qed

theorem last_declared_wins_ties_witness:
  "paths_loop ''a/b/c'' (Split ''a/b/c'') [rule_a_b, rule_a, rule_a_b_hg, rule_a] 0 (None, 0, 0)
     = (Some rule_a_b_hg, 2, 3)"
proof -
  let ?ps = "[rule_a_b, rule_a, rule_a_b_hg, rule_a]"
  have j: "2 < length ?ps" by simp
  have c: "candidate ''a/b/c'' (Split ''a/b/c'') (?ps ! 2)"
    by (simp add: candidate_def HasPrefix_def rule_a_b_hg_def)
  have longest: "\<forall>k < length ?ps. candidate ''a/b/c'' (Split ''a/b/c'') (?ps ! k) \<longrightarrow>
                    length (Prefix (?ps ! k)) \<le> length (Prefix (?ps ! 2))"
    by (simp add: rule_a_def rule_a_b_def rule_a_b_hg_def less_Suc_eq eval_nat_numeral)
  have last: "\<forall>k < length ?ps. candidate ''a/b/c'' (Split ''a/b/c'') (?ps ! k)
                    \<and> length (Prefix (?ps ! k)) = length (Prefix (?ps ! 2)) \<longrightarrow> k \<le> 2"
    by (auto simp add: rule_a_def rule_a_b_def rule_a_b_hg_def less_Suc_eq eval_nat_numeral)
  from last_declared_wins_ties [OF j c longest last]
  show ?thesis by (simp add: rule_a_b_hg_def)
qed

section \<open>Start-up\<close>

lemma main_loop_positive:
  "main_loop eng ps i t = Inr (ps', t') \<Longrightarrow> \<forall>p \<in> set ps'. 0 < NbComponents p"
proof (induction ps arbitrary: i t ps')
  case Nil
  then show ?case by simp
next
  case (Cons p ps)
  then show ?case
    by (auto simp: Let_def length_Split split: option.splits sum.splits if_splits)
qed

lemma main_loop_map:
  "main_loop eng ps i t = Inr (ps', t') \<Longrightarrow>
     ps' = map (\<lambda>p. if NbComponents p \<le> 0
                     then p\<lparr>NbComponents := int (length (Split (Prefix p)))\<rparr> else p) ps"
proof (induction ps arbitrary: i t ps')
  case Nil
  then show ?case by simp
next
  case (Cons p ps)
  then show ?case
    by (auto simp: Let_def split: option.splits sum.splits if_splits)
qed

text \<open>
  C5. When \<^verbatim>\<open>main\<close> reaches the point where it serves, every rule whose
  \<open>NbComponents\<close> was zero (absent) or negative has it set to the number of segments of
  its prefix, every other rule is unchanged, and so is the rest of the configuration.
\<close>

theorem main_fills_NbComponents:
  assumes "main_setup eng conf ts = Inr (conf', ts')"
  shows "conf' = conf\<lparr>Paths :=
           map (\<lambda>p. if NbComponents p \<le> 0
                     then p\<lparr>NbComponents := 1 + int (count_list (Prefix p) (CHR ''/''))\<rparr>
                     else p) (Paths conf)\<rparr>"
  using assms main_loop_map [of eng "Paths conf" 0 ts]
  by (auto simp: main_setup_def length_Split split: sum.splits)

theorem main_fills_NbComponents_witness:
  "main_setup demo_engine
     \<lparr>Host = ''example.com'', Port = 8080, Tls = None,
      Paths = [\<lparr>Prefix = ''example.com/foo'', NbComponents = 0, VCS = ''git'',
                RepoTemplate = ''https://github.com/org/{{index . 2}}''\<rparr>,
               \<lparr>Prefix = ''example.com/x/y'', NbComponents = - 4, VCS = ''git'',
                RepoTemplate = ''https://github.com/x/y''\<rparr>,
               \<lparr>Prefix = ''example.com'', NbComponents = 2, VCS = ''hg'',
                RepoTemplate = ''https://hg.example.com/''\<rparr>]\<rparr> []
   = Inr (\<lparr>Host = ''example.com'', Port = 8080, Tls = None,
      Paths = [\<lparr>Prefix = ''example.com/foo'', NbComponents = 2, VCS = ''git'',
                RepoTemplate = ''https://github.com/org/{{index . 2}}''\<rparr>,
               \<lparr>Prefix = ''example.com/x/y'', NbComponents = 3, VCS = ''git'',
                RepoTemplate = ''https://github.com/x/y''\<rparr>,
               \<lparr>Prefix = ''example.com'', NbComponents = 2, VCS = ''hg'',
                RepoTemplate = ''https://hg.example.com/''\<rparr>]\<rparr>,
      [(''path-2'', ''https://hg.example.com/''), (''path-1'', ''https://github.com/x/y''),
       (''path-0'', ''https://github.com/org/{{index . 2}}'')])"
proof -
  let ?c = "\<lparr>Host = ''example.com'', Port = 8080, Tls = None,
      Paths = [\<lparr>Prefix = ''example.com/foo'', NbComponents = 0, VCS = ''git'',
                RepoTemplate = ''https://github.com/org/{{index . 2}}''\<rparr>,
               \<lparr>Prefix = ''example.com/x/y'', NbComponents = - 4, VCS = ''git'',
                RepoTemplate = ''https://github.com/x/y''\<rparr>,
               \<lparr>Prefix = ''example.com'', NbComponents = 2, VCS = ''hg'',
                RepoTemplate = ''https://hg.example.com/''\<rparr>]\<rparr>"
  obtain c' t' where r: "main_setup demo_engine ?c [] = Inr (c', t')"
    by (simp add: main_setup_def demo_engine_def)
  have t: "t' = [(''path-2'', ''https://hg.example.com/''), (''path-1'', ''https://github.com/x/y''),
       (''path-0'', ''https://github.com/org/{{index . 2}}'')]"
    using r by (simp add: main_setup_def demo_engine_def templateNameForImportPath_def
        Itoa.simps digit_def eval_nat_numeral)
  from main_fills_NbComponents [OF r] have "c' = \<lparr>Host = ''example.com'', Port = 8080, Tls = None,
      Paths = [\<lparr>Prefix = ''example.com/foo'', NbComponents = 2, VCS = ''git'',
                RepoTemplate = ''https://github.com/org/{{index . 2}}''\<rparr>,
               \<lparr>Prefix = ''example.com/x/y'', NbComponents = 3, VCS = ''git'',
                RepoTemplate = ''https://github.com/x/y''\<rparr>,
               \<lparr>Prefix = ''example.com'', NbComponents = 2, VCS = ''hg'',
                RepoTemplate = ''https://hg.example.com/''\<rparr>]\<rparr>"
    by simp
  with r t show ?thesis by simp
qed

lemma example_setup:
  "main_setup demo_engine example_raw_conf [] = Inr (example_conf, example_templates)"
  by (simp add: main_setup_def example_raw_conf_def example_conf_def example_templates_def
      demo_engine_def names)

text \<open>
  C8. Rejection of empty fields. The validated variant serves only a configuration in which
  every rule has a prefix and a repo template that are not empty, and stops on any
  configuration with a rule that lacks one. (The variant with \<open>NbComponents\<close> has no such
  check, as the last section shows.)
\<close>

theorem required_fields_validated:
  "((\<exists>p \<in> set (Paths' conf). Prefix' p = [] \<or> RepoTemplate' p = [])
      \<longrightarrow> main_validate v conf = Inl InvalidConfiguration)
   \<and> (main_validate v conf = Inr conf'
      \<longrightarrow> conf' = conf \<and> (\<forall>p \<in> set (Paths' conf'). Prefix' p \<noteq> [] \<and> RepoTemplate' p \<noteq> []))"
  by (auto simp: main_validate_def validate_config_def validate_importPath_def required_def
      list_all_iff)

theorem required_fields_validated_witness:
  "main_validate demo_validators empty_prefix_conf = Inl InvalidConfiguration
   \<and> main_validate demo_validators valid_conf = Inr valid_conf
   \<and> list_all (\<lambda>p. Prefix' p \<noteq> [] \<and> RepoTemplate' p \<noteq> []) (Paths' valid_conf)"
proof -
  have bad: "\<exists>p \<in> set (Paths' empty_prefix_conf). Prefix' p = [] \<or> RepoTemplate' p = []"
    by (simp add: empty_prefix_conf_def)
  have good: "main_validate demo_validators valid_conf = Inr valid_conf"
    by (simp add: main_validate_def validate_config_def validate_importPath_def required_def
        demo_validators_def valid_conf_def)
  from bad required_fields_validated [of empty_prefix_conf demo_validators]
  have 1: "main_validate demo_validators empty_prefix_conf = Inl InvalidConfiguration"
    by blast
  from good required_fields_validated [of valid_conf demo_validators valid_conf]
  have 2: "\<forall>p \<in> set (Paths' valid_conf). Prefix' p \<noteq> [] \<and> RepoTemplate' p \<noteq> []"
    by blast
  from 1 good 2 show ?thesis by (simp add: list_all_iff)
qed

section \<open>The handler\<close>

lemma handler_go_get:
  assumes "Get (req_Query r) ''go-get'' = ''1''"
  shows "fst (handler eng mainTemplate conf r lg) =
     (case paths_loop (req_Host r @ req_Path r) (Split (req_Host r @ req_Path r)) (Paths conf) 0
             (None, 0, 0) of
        (None, pi, pl) \<Rightarrow> Resp not_found
      | (Some p, pi, pl) \<Rightarrow>
          (case ExecuteTemplate eng mainTemplate (templateNameForImportPath pi)
                  (Split (req_Host r @ req_Path r)) of
             None \<Rightarrow> Resp not_found
           | Some repo \<Rightarrow>
               (case slice_to (Split (req_Host r @ req_Path r)) (NbComponents p) of
                  None \<Rightarrow> Panicked
                | Some cs \<Rightarrow>
                    (case Execute eng mainTemplate
                            \<lparr>miPrefix = Join cs, miVCS = VCS p, miRepo = repo\<rparr> of
                       None \<Rightarrow> Resp internal_error
                     | Some html \<Rightarrow> Resp (ok html)))))"
  using assms by (simp add: handler_def Let_def split: prod.splits option.splits)

lemma go_get_query: "Get (req_Query (go_get path)) ''go-get'' = ''1''"
  by (simp add: go_get_def Get_def)

lemma run_baz:
  "handler demo_engine example_templates example_conf (go_get ''/baz'') []
     = (Resp not_found, [RequestFor ''example.com/baz'', UnableToMatch ''example.com/baz''])"
  by (simp add: handler_def go_get_query Let_def)
     (simp add: go_get_def example_conf_def HasPrefix_def)

lemma run_foo:
  "handler demo_engine example_templates example_conf (go_get ''/foo'') []
     = (Resp not_found, [RequestFor ''example.com/foo'', TemplateFailed ''example.com/foo''])"
  by (simp add: handler_def go_get_query Let_def)
     (simp add: go_get_def example_conf_def HasPrefix_def names demo_engine_def
        example_templates_def demo_exec_def)

lemma run_pkg_sub:
  \<open>handler demo_engine example_templates example_conf (go_get ''/pkg/sub'') []
     = (Resp \<lparr>status = 200, headers = [(''Content-Type'', ''text/html'')],
          body = ''<meta name="go-import" content="example.com/pkg hg https://hg.example.com/sub">''\<rparr>,
        [RequestFor ''example.com/pkg/sub''])\<close>
  by (simp add: handler_def go_get_query Let_def)
     (simp add: go_get_def example_conf_def HasPrefix_def names demo_engine_def
        example_templates_def demo_exec_def slice_to_def ok_def)

text \<open>
  C6. A request whose \<^verbatim>\<open>go-get\<close> parameter is missing or is not \<^verbatim>\<open>1\<close> gets status
  400 with no header and no body, whatever the path, the rules and the templates are; the
  only log line is the one for the rejected query.
\<close>

theorem not_go_get_bad_request:
  assumes "req_Query r ''go-get'' = None \<or> Get (req_Query r) ''go-get'' \<noteq> ''1''"
  shows "handler eng mainTemplate conf r lg
           = (Resp \<lparr>status = 400, headers = [], body = []\<rparr>, lg @ [NotGoGetQuery (req_URL r)])"
proof -
  have "Get (req_Query r) ''go-get'' \<noteq> ''1''"
    using assms by (auto simp: Get_def)
  then show ?thesis by (simp add: handler_def bad_request_def)
qed

theorem not_go_get_bad_request_witness:
  "handler demo_engine [(''path-0'', ''https://github.com/org/{{index . 2}}'')]
     \<lparr>Host = ''example.com'', Port = 8080, Tls = None,
      Paths = [\<lparr>Prefix = ''example.com/foo'', NbComponents = 2, VCS = ''git'',
                RepoTemplate = ''https://github.com/org/{{index . 2}}''\<rparr>]\<rparr>
     \<lparr>req_Host = ''example.com'', req_Path = ''/foo/bar'', req_Query = Map.empty,
      req_URL = ''/foo/bar''\<rparr> []
   = (Resp \<lparr>status = 400, headers = [], body = []\<rparr>, [NotGoGetQuery ''/foo/bar''])
   \<and> handler demo_engine [(''path-0'', ''https://github.com/org/{{index . 2}}'')]
     \<lparr>Host = ''example.com'', Port = 8080, Tls = None,
      Paths = [\<lparr>Prefix = ''example.com/foo'', NbComponents = 2, VCS = ''git'',
                RepoTemplate = ''https://github.com/org/{{index . 2}}''\<rparr>]\<rparr>
     \<lparr>req_Host = ''example.com'', req_Path = ''/foo/bar'',
      req_Query = [''go-get'' \<mapsto> [''0'', ''1'']], req_URL = ''/foo/bar?go-get=0&go-get=1''\<rparr> []
   = (Resp \<lparr>status = 400, headers = [], body = []\<rparr>,
      [NotGoGetQuery ''/foo/bar?go-get=0&go-get=1''])"
  using not_go_get_bad_request [of "\<lparr>req_Host = ''example.com'', req_Path = ''/foo/bar'',
      req_Query = Map.empty, req_URL = ''/foo/bar''\<rparr>" demo_engine _ _ "[]"]
    not_go_get_bad_request [of "\<lparr>req_Host = ''example.com'', req_Path = ''/foo/bar'',
      req_Query = [''go-get'' \<mapsto> [''0'', ''1'']], req_URL = ''/foo/bar?go-get=0&go-get=1''\<rparr>"
      demo_engine _ _ "[]"]
  by (simp add: Get_def)


text \<open>
  C7. Not found. A \<^verbatim>\<open>go-get\<close> request gets status 404 exactly when no rule is a
  candidate for its path or the template of the selected rule fails to execute, and the
  response is then the one of \<^verbatim>\<open>http.NotFound\<close>: the handler returns, it does not panic.
\<close>

theorem not_found_cases:
  assumes "Get (req_Query r) ''go-get'' = ''1''"
  shows "((\<exists>resp. fst (handler eng mainTemplate conf r lg) = Resp resp \<and> status resp = 404)
          \<longleftrightarrow> (\<forall>x \<in> set (Paths conf).
                 \<not> candidate (req_Host r @ req_Path r) (Split (req_Host r @ req_Path r)) x)
              \<or> (\<exists>p pi pl.
                   paths_loop (req_Host r @ req_Path r) (Split (req_Host r @ req_Path r))
                     (Paths conf) 0 (None, 0, 0) = (Some p, pi, pl)
                   \<and> ExecuteTemplate eng mainTemplate (templateNameForImportPath pi)
                       (Split (req_Host r @ req_Path r)) = None))
       \<and> ((\<exists>resp. fst (handler eng mainTemplate conf r lg) = Resp resp \<and> status resp = 404)
          \<longleftrightarrow> fst (handler eng mainTemplate conf r lg) = Resp not_found)"
proof -
  let ?pkg = "req_Host r @ req_Path r"
  obtain p pi pl where l: "paths_loop ?pkg (Split ?pkg) (Paths conf) 0 (None, 0, 0) = (p, pi, pl)"
    by (cases "paths_loop ?pkg (Split ?pkg) (Paths conf) 0 (None, 0, 0)") auto
  note h = handler_go_get [OF assms, of eng mainTemplate conf lg]
  show ?thesis
  proof (cases p)
    case None
    with l have "\<forall>x \<in> set (Paths conf). \<not> candidate ?pkg (Split ?pkg) x"
      using select_None by blast
    moreover have "fst (handler eng mainTemplate conf r lg) = Resp not_found"
      using h l None by simp
    ultimately show ?thesis by (simp add: not_found_def)
  next
    case (Some q)
    have cand: "candidate ?pkg (Split ?pkg) q" and mem: "q \<in> set (Paths conf)"
      using select_Some(1,2,4) [OF l [unfolded Some]] by simp_all
    then have nocand: "\<not> (\<forall>x \<in> set (Paths conf). \<not> candidate ?pkg (Split ?pkg) x)"
      by blast
    show ?thesis
    proof (cases "ExecuteTemplate eng mainTemplate (templateNameForImportPath pi) (Split ?pkg)")
      case None
      then have "fst (handler eng mainTemplate conf r lg) = Resp not_found"
        using h l Some by simp
      with None l Some show ?thesis by (simp add: not_found_def)
    next
      case (Some repo)
      have "fst (handler eng mainTemplate conf r lg) \<noteq> Resp not_found"
        "\<not> (\<exists>resp. fst (handler eng mainTemplate conf r lg) = Resp resp \<and> status resp = 404)"
        using h l \<open>p = Some q\<close> Some
        by (auto simp: not_found_def internal_error_def ok_def split: option.splits)
      with nocand l \<open>p = Some q\<close> Some show ?thesis by auto
    qed
  qed
qed

theorem not_found_cases_witness:
  "fst (handler demo_engine example_templates example_conf (go_get ''/baz'') []) = Resp not_found
   \<and> fst (handler demo_engine example_templates example_conf (go_get ''/foo'') []) = Resp not_found
   \<and> fst (handler demo_engine example_templates example_conf (go_get ''/pkg/sub'') []) \<noteq> Resp not_found"
proof -
  have none: "\<forall>x \<in> set (Paths example_conf).
      \<not> candidate (req_Host (go_get ''/baz'') @ req_Path (go_get ''/baz''))
          (Split (req_Host (go_get ''/baz'') @ req_Path (go_get ''/baz''))) x"
    by (simp add: go_get_def example_conf_def candidate_def HasPrefix_def)
  have failed: "\<exists>p pi pl.
      paths_loop (req_Host (go_get ''/foo'') @ req_Path (go_get ''/foo''))
        (Split (req_Host (go_get ''/foo'') @ req_Path (go_get ''/foo'')))
        (Paths example_conf) 0 (None, 0, 0) = (Some p, pi, pl)
      \<and> ExecuteTemplate demo_engine example_templates (templateNameForImportPath pi)
          (Split (req_Host (go_get ''/foo'') @ req_Path (go_get ''/foo''))) = None"
    by (simp add: go_get_def example_conf_def HasPrefix_def names demo_engine_def
        example_templates_def demo_exec_def)
  have served: "\<not> (\<exists>resp. fst (handler demo_engine example_templates example_conf
      (go_get ''/pkg/sub'') []) = Resp resp \<and> status resp = 404)"
    by (simp add: run_pkg_sub)
  from none not_found_cases [OF go_get_query [of "''/baz''"], of demo_engine example_templates example_conf "[]"]
  have 1: "fst (handler demo_engine example_templates example_conf (go_get ''/baz'') []) = Resp not_found"
    by blast
  from failed not_found_cases [OF go_get_query [of "''/foo''"], of demo_engine example_templates example_conf "[]"]
  have 2: "fst (handler demo_engine example_templates example_conf (go_get ''/foo'') []) = Resp not_found"
    by blast
  from served not_found_cases [OF go_get_query [of "''/pkg/sub''"], of demo_engine example_templates example_conf "[]"]
  have 3: "fst (handler demo_engine example_templates example_conf (go_get ''/pkg/sub'') []) \<noteq> Resp not_found"
    by blast
  from 1 2 3 show ?thesis by simp
qed

text \<open>
  C4. Import prefix. In every response with status 200 the skeleton was rendered with, as
  its prefix, the first \<open>NbComponents\<close> segments of the path joined with slashes, where
  \<open>NbComponents\<close> is that of the selected rule and lies within the segments of the path.
\<close>

theorem import_prefix_join:
  assumes "handler eng mainTemplate conf r lg = (Resp resp, lg')" and "status resp = 200"
  shows "\<exists>p pi pl repo.
           paths_loop (req_Host r @ req_Path r) (Split (req_Host r @ req_Path r))
             (Paths conf) 0 (None, 0, 0) = (Some p, pi, pl)
           \<and> ExecuteTemplate eng mainTemplate (templateNameForImportPath pi)
               (Split (req_Host r @ req_Path r)) = Some repo
           \<and> Execute eng mainTemplate
               \<lparr>miPrefix = Join (take (nat (NbComponents p)) (Split (req_Host r @ req_Path r))),
                miVCS = VCS p, miRepo = repo\<rparr> = Some (body resp)
           \<and> 0 \<le> NbComponents p
           \<and> NbComponents p \<le> int (length (Split (req_Host r @ req_Path r)))"
  using assms
  by (auto simp: handler_def Let_def bad_request_def not_found_def internal_error_def ok_def
      slice_to_def split: prod.splits option.splits if_splits)

theorem import_prefix_join_witness:
  \<open>Join (take 2 (Split ''example.com/pkg/sub'')) = ''example.com/pkg''
   \<and> (\<exists>repo. Execute demo_engine example_templates
          \<lparr>miPrefix = ''example.com/pkg'', miVCS = ''hg'', miRepo = repo\<rparr>
        = Some ''<meta name="go-import" content="example.com/pkg hg https://hg.example.com/sub">'')\<close>
proof -
  have sel: "paths_loop ''example.com/pkg/sub'' (Split ''example.com/pkg/sub'')
      (Paths example_conf) 0 (None, 0, 0)
      = (Some \<lparr>Prefix = ''example.com/pkg'', NbComponents = 2, VCS = ''hg'',
                RepoTemplate = ''https://hg.example.com/{{index . 2}}''\<rparr>, 1, 15)"
    by (simp add: example_conf_def HasPrefix_def)
  from import_prefix_join [OF run_pkg_sub]
  have \<open>\<exists>p pi pl repo.
           paths_loop ''example.com/pkg/sub'' (Split ''example.com/pkg/sub'')
             (Paths example_conf) 0 (None, 0, 0) = (Some p, pi, pl)
           \<and> ExecuteTemplate demo_engine example_templates (templateNameForImportPath pi)
               (Split ''example.com/pkg/sub'') = Some repo
           \<and> Execute demo_engine example_templates
               \<lparr>miPrefix = Join (take (nat (NbComponents p)) (Split ''example.com/pkg/sub'')),
                miVCS = VCS p, miRepo = repo\<rparr>
              = Some ''<meta name="go-import" content="example.com/pkg hg https://hg.example.com/sub">''\<close>
    by (auto simp add: go_get_def)
  then have \<open>\<exists>repo. Execute demo_engine example_templates
          \<lparr>miPrefix = Join (take 2 (Split ''example.com/pkg/sub'')), miVCS = ''hg'', miRepo = repo\<rparr>
        = Some ''<meta name="go-import" content="example.com/pkg hg https://hg.example.com/sub">''\<close>
    unfolding sel by auto
  moreover have "Join (take 2 (Split ''example.com/pkg/sub'')) = ''example.com/pkg''"
    by (simp add: eval_nat_numeral)
  ultimately show ?thesis by simp
qed

text \<open>
  C10. The slice is in range. With the configuration and template set that \<^verbatim>\<open>main\<close>
  hands to the handler, the handler never panics, and the \<open>NbComponents\<close> of a selected
  rule is positive and at most the number of segments, so that the slice expression
  succeeds.
\<close>

theorem import_prefix_in_range:
  assumes "main_setup eng conf0 ts0 = Inr (conf, mainTemplate)"
  shows "fst (handler eng mainTemplate conf r lg) \<noteq> Panicked
       \<and> (\<forall>p pi pl. paths_loop pkg (Split pkg) (Paths conf) 0 (None, 0, 0) = (Some p, pi, pl)
            \<longrightarrow> 0 < NbComponents p \<and> NbComponents p \<le> int (length (Split pkg))
              \<and> slice_to (Split pkg) (NbComponents p)
                  = Some (take (nat (NbComponents p)) (Split pkg)))"
proof -
  have pos: "\<forall>p \<in> set (Paths conf). 0 < NbComponents p"
    using assms main_loop_positive [of eng "Paths conf0" 0 ts0]
    by (auto simp: main_setup_def split: sum.splits)
  have sel: "0 < NbComponents p \<and> NbComponents p \<le> int (length (Split s))
              \<and> slice_to (Split s) (NbComponents p) = Some (take (nat (NbComponents p)) (Split s))"
    if "paths_loop s (Split s) (Paths conf) 0 (None, 0, 0) = (Some p, pi, pl)" for s p pi pl
  proof -
    from select_Some(1,2,4) [OF that] have "p \<in> set (Paths conf)" "candidate s (Split s) p"
      by simp_all
    with pos show ?thesis by (auto simp: candidate_def slice_to_def)
  qed
  have "fst (handler eng mainTemplate conf r lg) \<noteq> Panicked"
  proof (cases "Get (req_Query r) ''go-get'' = ''1''")
    case True
    obtain p pi pl where l: "paths_loop (req_Host r @ req_Path r) (Split (req_Host r @ req_Path r))
        (Paths conf) 0 (None, 0, 0) = (p, pi, pl)"
      by (cases "paths_loop (req_Host r @ req_Path r) (Split (req_Host r @ req_Path r))
        (Paths conf) 0 (None, 0, 0)") auto
    show ?thesis
    proof (cases p)
      case None
      with l show ?thesis by (simp add: handler_go_get [OF True])
    next
      case (Some q)
      with l sel [of "req_Host r @ req_Path r" q pi pl] show ?thesis
        by (simp add: handler_go_get [OF True] split: option.splits)
    qed
  next
    case False
    then show ?thesis by (simp add: handler_def)
  qed
  with sel show ?thesis by blast
qed

theorem import_prefix_in_range_witness:
  "fst (handler demo_engine example_templates example_conf (go_get ''/pkg/sub'') []) \<noteq> Panicked
   \<and> slice_to (Split ''example.com/pkg/sub'') 2 = Some [''example.com'', ''pkg'']"
proof -
  have sel: "paths_loop ''example.com/pkg/sub'' (Split ''example.com/pkg/sub'')
      (Paths example_conf) 0 (None, 0, 0)
      = (Some \<lparr>Prefix = ''example.com/pkg'', NbComponents = 2, VCS = ''hg'',
                RepoTemplate = ''https://hg.example.com/{{index . 2}}''\<rparr>, 1, 15)"
    by (simp add: example_conf_def HasPrefix_def)
  note t = import_prefix_in_range [OF example_setup, of "go_get ''/pkg/sub''" "[]" "''example.com/pkg/sub''"]
  from t have "fst (handler demo_engine example_templates example_conf (go_get ''/pkg/sub'') []) \<noteq> Panicked"
    by blast
  moreover from t sel have "slice_to (Split ''example.com/pkg/sub'') 2
      = Some (take (nat 2) (Split ''example.com/pkg/sub''))"
    by fastforce
  ultimately show ?thesis by (simp add: eval_nat_numeral)
qed

section \<open>Empty fields in the variant with \<open>NbComponents\<close>\<close>

text \<open>
  The variant with \<open>NbComponents\<close> starts to serve a configuration whose rule has an empty
  prefix and an empty repo template: the rule gets one component and answers every path.
\<close>

theorem empty_rule_served:
  \<open>main_setup demo_engine empty_rule_conf []
     = Inr (\<lparr>Host = ''example.com'', Port = 8080, Tls = None,
             Paths = [\<lparr>Prefix = [], NbComponents = 1, VCS = ''git'', RepoTemplate = []\<rparr>]\<rparr>,
            [(''path-0'', [])])
   \<and> handler demo_engine [(''path-0'', [])]
       \<lparr>Host = ''example.com'', Port = 8080, Tls = None,
        Paths = [\<lparr>Prefix = [], NbComponents = 1, VCS = ''git'', RepoTemplate = []\<rparr>]\<rparr>
       (go_get ''/foo/bar'') []
     = (Resp \<lparr>status = 200, headers = [(''Content-Type'', ''text/html'')],
          body = ''<meta name="go-import" content="example.com git ">''\<rparr>,
        [RequestFor ''example.com/foo/bar''])\<close>
proof -
  have "main_setup demo_engine empty_rule_conf []
     = Inr (\<lparr>Host = ''example.com'', Port = 8080, Tls = None,
             Paths = [\<lparr>Prefix = [], NbComponents = 1, VCS = ''git'', RepoTemplate = []\<rparr>]\<rparr>,
            [(''path-0'', [])])"
    by (simp add: main_setup_def empty_rule_conf_def demo_engine_def names)
  moreover have \<open>handler demo_engine [(''path-0'', [])]
       \<lparr>Host = ''example.com'', Port = 8080, Tls = None,
        Paths = [\<lparr>Prefix = [], NbComponents = 1, VCS = ''git'', RepoTemplate = []\<rparr>]\<rparr>
       (go_get ''/foo/bar'') []
     = (Resp \<lparr>status = 200, headers = [(''Content-Type'', ''text/html'')],
          body = ''<meta name="go-import" content="example.com git ">''\<rparr>,
        [RequestFor ''example.com/foo/bar''])\<close>
    by (simp add: handler_def go_get_query Let_def)
       (simp add: go_get_def HasPrefix_def names demo_engine_def demo_exec_def slice_to_def ok_def)
  ultimately show ?thesis by simp
qed

end
